theory Spec2Isabelle
  imports Main
begin

section \<open>The binary clock: data model\<close>

text \<open>
  A shallow embedding of \<^verbatim>\<open>src/BinaryClock.ino\<close>. The sketch keeps all of its state in
  global variables and polls five buttons once per iteration of \<^verbatim>\<open>loop()\<close>.

  Modelling decisions:
  \<^item> The C++ type \<^verbatim>\<open>int\<close> is modelled by \<^typ>\<open>int\<close>. Signed overflow is undefined in
    C++; no theorem below depends on a value leaving the 16-bit range of the board.
    The operator \<^verbatim>\<open>%\<close> truncates towards zero and is written \<open>c_rem\<close>.
  \<^item> The flags of the sketch (\<^verbatim>\<open>isSettingTime\<close>, the button latches, ...) stay integers,
    since the source tests them in three ways (\<^verbatim>\<open>== 0\<close>, \<^verbatim>\<open>!= 1\<close> and truthiness).
  \<^item> One iteration of \<^verbatim>\<open>loop()\<close> reads every button at one level: \<open>inputs\<close> holds the
    level of the five pins during the iteration (\<open>True\<close> is \<^verbatim>\<open>HIGH\<close>, pressed).
  \<^item> Every \<^verbatim>\<open>digitalWrite\<close> is appended to the trace \<open>writes\<close>; the level of an output
    pin is that of the last write to it (\<^verbatim>\<open>LOW\<close> before any write).
  \<^item> The character display is written but never read by the sketch, and the delay at
    the end of \<^verbatim>\<open>loop()\<close> only fills the iteration up to \<^verbatim>\<open>TICKRATE\<close> milliseconds;
    neither is part of the model. The global \<^verbatim>\<open>f1Toggle\<close> is never used and is left out.
\<close>

definition c_rem :: "int \<Rightarrow> int \<Rightarrow> int" where
  "c_rem a b = sgn a * (\<bar>a\<bar> mod \<bar>b\<bar>)"

definition TICKRATE :: int where
  "TICKRATE = 8"

record timeStruct =
  hours :: int
  minutes :: int
  seconds :: int
  milliseconds :: int

definition lowestPin :: int where
  "lowestPin = 22"

definition highestPin :: int where
  "highestPin = 38"

definition lowestSecPin :: int where
  "lowestSecPin = lowestPin"

definition lowestMinPin :: int where
  "lowestMinPin = lowestSecPin + 6"

definition lowestHourPin :: int where
  "lowestHourPin = lowestMinPin + 6"

record inputs =
  toggleButton :: bool
  f1Button :: bool
  f2Button :: bool
  f3Button :: bool
  setButton :: bool

record globals =
  timeOfDay :: timeStruct
  stopWatchTime :: timeStruct
  timer :: timeStruct
  modeNumber :: int
  toggleButtonRelease :: int
  f1ButtonRelease :: int
  f2ButtonRelease :: int
  f3ButtonRelease :: int
  setButtonRelease :: int
  increment :: int
  segment :: int
  isSettingTime :: int
  isStopwatchCounting :: int
  isTimerCounting :: int
  flash :: int
  writes :: "(int \<times> bool) list"

definition zero_time :: timeStruct where
  "zero_time = \<lparr>hours = 0, minutes = 0, seconds = 0, milliseconds = 0\<rparr>"

text \<open>The state after \<^verbatim>\<open>setup()\<close>: every global has its initialiser.\<close>

definition initial :: globals where
  "initial = \<lparr>timeOfDay = zero_time, stopWatchTime = zero_time, timer = zero_time,
     modeNumber = 0, toggleButtonRelease = 0, f1ButtonRelease = 0, f2ButtonRelease = 0,
     f3ButtonRelease = 0, setButtonRelease = 0, increment = 0, segment = 0,
     isSettingTime = 0, isStopwatchCounting = 0, isTimerCounting = 0, flash = 0,
     writes = []\<rparr>"

section \<open>Output pins\<close>

definition digitalWrite :: "int \<Rightarrow> bool \<Rightarrow> globals \<Rightarrow> globals" where
  "digitalWrite pin v g = g\<lparr>writes := writes g @ [(pin, v)]\<rparr>"

definition pin_level :: "globals \<Rightarrow> int \<Rightarrow> bool" where
  "pin_level g pin = (case map_of (rev (writes g)) pin of Some v \<Rightarrow> v | None \<Rightarrow> False)"

text \<open>\<^verbatim>\<open>for (thisPin = lowestPin; thisPin <= highestPin; thisPin++) digitalWrite(thisPin, v);\<close>\<close>

definition write_all_pins :: "bool \<Rightarrow> globals \<Rightarrow> globals" where
  "write_all_pins v g = fold (\<lambda>thisPin. digitalWrite thisPin v) [lowestPin..highestPin] g"

text \<open>\<^verbatim>\<open>bitRead(value, bit)\<close> is \<^verbatim>\<open>((value) >> (bit)) & 0x01\<close>.\<close>

definition bitRead :: "int \<Rightarrow> nat \<Rightarrow> bool" where
  "bitRead v i = bit v i"

definition led_display :: "timeStruct \<Rightarrow> globals \<Rightarrow> globals" where
  "led_display t g =
     (if milliseconds t = 0 \<or> milliseconds t = 1000 then
        (let g = fold (\<lambda>i g. digitalWrite (lowestMinPin + int i) (bitRead (minutes t) i)
                         (digitalWrite (lowestSecPin + int i) (bitRead (seconds t) i) g))
                   [0..<6] g
         in fold (\<lambda>i. digitalWrite (lowestHourPin + int i) (bitRead (hours t) i)) [0..<5] g)
      else g)"

section \<open>Counting up\<close>

definition count_time :: "timeStruct \<Rightarrow> timeStruct" where
  "count_time t0 =
     (let t = t0\<lparr>milliseconds := milliseconds t0 + TICKRATE\<rparr>;
          t = (if milliseconds t = 1000
               then t\<lparr>seconds := seconds t + 1, milliseconds := 0\<rparr> else t);
          t = (if seconds t = 60
               then t\<lparr>minutes := minutes t + 1, seconds := 0\<rparr> else t);
          t = (if minutes t = 60
               then t\<lparr>hours := hours t + 1, minutes := 0\<rparr> else t)
      in t\<lparr>hours := c_rem (hours t) 24\<rparr>)"

section \<open>Stopwatch\<close>

definition run_stopwatch :: "inputs \<Rightarrow> globals \<Rightarrow> globals" where
  "run_stopwatch inp g0 =
     (let g = (if f1Button inp then g0\<lparr>f1ButtonRelease := 1\<rparr>
               else if f1ButtonRelease g0 = 1
               then g0\<lparr>isStopwatchCounting := (if isStopwatchCounting g0 = 0 then 1 else 0),
                       f1ButtonRelease := 0\<rparr>
               else g0);
          g = (if f2Button inp then g\<lparr>f2ButtonRelease := 1\<rparr>
               else if f2ButtonRelease g = 1
               then (let g = g\<lparr>stopWatchTime := (stopWatchTime g)\<lparr>milliseconds := 0,
                                   seconds := 0, minutes := 0, hours := 0\<rparr>,
                                isStopwatchCounting := 0, f2ButtonRelease := 0\<rparr>
                     in led_display (stopWatchTime g) g)
               else g);
          g = (if isStopwatchCounting g = 1
               then (let g = g\<lparr>stopWatchTime := count_time (stopWatchTime g)\<rparr>
                     in led_display (stopWatchTime g) g)
               else g)
      in g)"

section \<open>Setting a time\<close>

text \<open>
  \<^verbatim>\<open>set_time(timeStruct &t)\<close> receives \<^verbatim>\<open>timeOfDay\<close> or \<^verbatim>\<open>timer\<close> by reference and
  touches other globals only; the model takes the referenced value and returns it with
  the globals, and the caller stores it back.
\<close>

text \<open>
  The two \<^verbatim>\<open>switch (segment)\<close> blocks of \<^verbatim>\<open>set_time\<close>: clearing the selected unit, and
  incrementing it with the overflow checks that follow the switch. A \<^verbatim>\<open>switch\<close> without
  \<^verbatim>\<open>default\<close> does nothing for any other value.
\<close>

definition clear_segment :: "int \<Rightarrow> timeStruct \<Rightarrow> timeStruct" where
  "clear_segment seg t =
     (if seg = 0 then t\<lparr>seconds := 0\<rparr>
      else if seg = 1 then t\<lparr>minutes := 0\<rparr>
      else if seg = 2 then t\<lparr>hours := 0\<rparr>
      else t)"

definition increment_segment :: "int \<Rightarrow> timeStruct \<Rightarrow> timeStruct" where
  "increment_segment seg t0 =
     (let t = (if seg = 0 then t0\<lparr>seconds := seconds t0 + 1\<rparr>
               else if seg = 1 then t0\<lparr>minutes := minutes t0 + 1\<rparr>
               else if seg = 2 then t0\<lparr>hours := hours t0 + 1\<rparr>
               else t0);
          t = (if seconds t > 60
               then t\<lparr>seconds := c_rem (seconds t) 60, minutes := minutes t + 1\<rparr>
               else t);
          t = (if minutes t > 60
               then t\<lparr>minutes := c_rem (minutes t) 60, hours := hours t + 1\<rparr>
               else t)
      in t\<lparr>hours := c_rem (hours t) 24\<rparr>)"

definition set_time :: "inputs \<Rightarrow> timeStruct \<Rightarrow> globals \<Rightarrow> timeStruct \<times> globals" where
  "set_time inp t0 g0 =
     (let t = t0\<lparr>milliseconds := 0\<rparr>;
          g = (if f3Button inp then g0\<lparr>f3ButtonRelease := 1\<rparr>
               else if f3ButtonRelease g0 = 1
               then g0\<lparr>segment := c_rem (segment g0 + 1) 3, f3ButtonRelease := 0\<rparr>
               else g0);
          (t, g) =
            (if f2Button inp then (t, g\<lparr>f2ButtonRelease := 1\<rparr>)
             else if f2ButtonRelease g = 1
             then (let t = clear_segment (segment g) t
                   in (t, led_display t (g\<lparr>f2ButtonRelease := 0\<rparr>)))
             else (t, g))
      in if f1Button inp then
           (let g = (led_display t g)\<lparr>f1ButtonRelease := 1\<rparr>;
                t = (if c_rem (increment g) 152 = 0
                     then increment_segment (segment g) t
                     else t)
            in (t, g\<lparr>increment := c_rem (increment g + TICKRATE) 1000\<rparr>))
         else if f1ButtonRelease g = 1 then (t, g\<lparr>increment := 0, f1ButtonRelease := 0\<rparr>)
         else (t, g))"

section \<open>Countdown timer\<close>

text \<open>The countdown step of \<^verbatim>\<open>run_timer\<close> (the body of its last branch).\<close>

definition timer_count_down :: "timeStruct \<Rightarrow> timeStruct" where
  "timer_count_down t0 =
     (let t = t0\<lparr>milliseconds := milliseconds t0 - (TICKRATE - 2)\<rparr>;
          t = (if milliseconds t < 0
               then t\<lparr>seconds := seconds t - 1, milliseconds := 1000\<rparr> else t);
          t = (if seconds t = - 1
               then t\<lparr>minutes := minutes t - 1, seconds := 59\<rparr> else t);
          t = (if minutes t = - 1
               then t\<lparr>minutes := minutes t - 1, seconds := 59\<rparr> else t)
      in t)"

definition run_timer :: "inputs \<Rightarrow> globals \<Rightarrow> globals" where
  "run_timer inp g0 =
     (let g = (if isSettingTime g0 = 0 then
                 (let g = (if f1Button inp then g0\<lparr>f1ButtonRelease := 1\<rparr>
                           else if f1ButtonRelease g0 = 1
                           then g0\<lparr>isTimerCounting := (if isTimerCounting g0 = 0 then 1 else 0),
                                   f1ButtonRelease := 0\<rparr>
                           else g0)
                  in if f2Button inp then g\<lparr>f2ButtonRelease := 1\<rparr>
                     else if f2ButtonRelease g = 1
                     then g\<lparr>timer := (timer g)\<lparr>milliseconds := 0, seconds := 0,
                                         minutes := 0, hours := 0\<rparr>,
                            isTimerCounting := 0, f1ButtonRelease := 0\<rparr>
                     else g)
               else g0)
      in if isSettingTime g \<noteq> 0 then
           (let (t, g) = set_time inp (timer g) g in g\<lparr>timer := t\<rparr>)
         else if hours (timer g) + seconds (timer g) + milliseconds (timer g)
                 + minutes (timer g) = 0 then
           (let g = g\<lparr>flash := c_rem (flash g + 1) 80\<rparr>
            in if flash g = 0 then write_all_pins True g
               else if flash g = 40 then write_all_pins False g
               else g)
         else if isTimerCounting g \<noteq> 0 then
           (let g = led_display (timer g) g
            in g\<lparr>timer := timer_count_down (timer g)\<rparr>)
         else g)"

section \<open>The main loop\<close>

text \<open>
  \<^verbatim>\<open>loop()\<close> is four blocks in sequence: the set button, the time of day, the mode
  button, and the call of the mode's function. Each block is one definition.
\<close>

definition loop_set_button :: "inputs \<Rightarrow> globals \<Rightarrow> globals" where
  "loop_set_button inp g =
     (if setButton inp then g\<lparr>setButtonRelease := 1\<rparr>
      else if setButtonRelease g = 1 then
        (let g = (if isSettingTime g = 0 \<and> modeNumber g \<noteq> 1 then
                    (let g = g\<lparr>isSettingTime := 1\<rparr>
                     in if modeNumber g = 2
                        then (write_all_pins False g)
                               \<lparr>timer := (timer g)\<lparr>milliseconds := 0, seconds := 0,
                                            minutes := 0, hours := 0\<rparr>,
                                isTimerCounting := 0\<rparr>
                        else g)
                  else g\<lparr>isSettingTime := 0, increment := 0, segment := 0\<rparr>)
         in g\<lparr>setButtonRelease := 0\<rparr>)
      else g)"

definition loop_time_of_day :: "inputs \<Rightarrow> globals \<Rightarrow> globals" where
  "loop_time_of_day inp g =
     (if isSettingTime g \<noteq> 1 \<or> modeNumber g \<noteq> 0
      then g\<lparr>timeOfDay := count_time (timeOfDay g)\<rparr>
      else (let (t, g) = set_time inp (timeOfDay g) g in g\<lparr>timeOfDay := t\<rparr>))"

text \<open>The body of the mode button's release branch.\<close>

definition mode_toggle :: "globals \<Rightarrow> globals" where
  "mode_toggle g0 =
     (let g = g0\<lparr>modeNumber := c_rem (modeNumber g0 + 1) 3\<rparr>;
          g = write_all_pins False g
      in g\<lparr>isSettingTime := 0, toggleButtonRelease := 0, flash := 0\<rparr>)"

definition loop_mode_button :: "inputs \<Rightarrow> globals \<Rightarrow> globals" where
  "loop_mode_button inp g =
     (if toggleButton inp then g\<lparr>toggleButtonRelease := 1\<rparr>
      else if toggleButtonRelease g = 1 then mode_toggle g
      else g)"

definition loop_dispatch :: "inputs \<Rightarrow> globals \<Rightarrow> globals" where
  "loop_dispatch inp g =
     (if modeNumber g = 0 then led_display (timeOfDay g) g
      else if modeNumber g = 1 then run_stopwatch inp g
      else if modeNumber g = 2 then run_timer inp g
      else g)"

definition loop :: "inputs \<Rightarrow> globals \<Rightarrow> globals" where
  "loop inp g =
     loop_dispatch inp (loop_mode_button inp (loop_time_of_day inp (loop_set_button inp g)))"

text \<open>Running the loop on the button levels of successive iterations, first one first.\<close>

fun run :: "inputs list \<Rightarrow> globals \<Rightarrow> globals" where
  "run [] g = g"
| "run (inp # inps) g = run inps (loop inp g)"

text \<open>Button levels of one iteration.\<close>

definition idle :: inputs where
  "idle = \<lparr>toggleButton = False, f1Button = False, f2Button = False, f3Button = False,
     setButton = False\<rparr>"

definition press_toggle :: inputs where
  "press_toggle = idle\<lparr>toggleButton := True\<rparr>"

definition press_f1 :: inputs where
  "press_f1 = idle\<lparr>f1Button := True\<rparr>"

definition press_f2 :: inputs where
  "press_f2 = idle\<lparr>f2Button := True\<rparr>"

definition press_f3 :: inputs where
  "press_f3 = idle\<lparr>f3Button := True\<rparr>"

definition press_set :: inputs where
  "press_set = idle\<lparr>setButton := True\<rparr>"

section \<open>Properties\<close>

text \<open>The normalization invariant of a time value: every field in its range.\<close>

definition valid_time :: "timeStruct \<Rightarrow> bool" where
  "valid_time t = (0 \<le> hours t \<and> hours t \<le> 23 \<and> 0 \<le> minutes t \<and> minutes t \<le> 59 \<and>
     0 \<le> seconds t \<and> seconds t \<le> 59 \<and> 0 \<le> milliseconds t \<and> milliseconds t \<le> 999)"

text \<open>
  The pin writes of one refresh of the LEDs, in the order of the two \<^verbatim>\<open>for\<close> statements
  of \<^verbatim>\<open>led_display\<close>: seconds and minutes bit by bit, then the hours.
\<close>

definition led_pattern :: "timeStruct \<Rightarrow> (int \<times> bool) list" where
  "led_pattern t =
     concat (map (\<lambda>i. [(lowestSecPin + int i, bit (seconds t) i),
                        (lowestMinPin + int i, bit (minutes t) i)]) [0..<6])
     @ map (\<lambda>i. (lowestHourPin + int i, bit (hours t) i)) [0..<5]"

text \<open>
  Invariants of the three time values that every iteration of the loop preserves. The
  time of day and the stopwatch only ever hold milliseconds that are multiples of
  \<open>TICKRATE\<close>; the timer counts down in steps of \<open>TICKRATE - 2\<close> and holds 1000 after
  a borrow.
\<close>

definition stopwatch_inv :: "timeStruct \<Rightarrow> bool" where
  "stopwatch_inv t = (valid_time t \<and> TICKRATE dvd milliseconds t)"

definition time_of_day_inv :: "timeStruct \<Rightarrow> bool" where
  "time_of_day_inv t = (0 \<le> hours t \<and> hours t \<le> 23 \<and> 0 \<le> seconds t \<and>
     0 \<le> milliseconds t \<and> milliseconds t \<le> 999 \<and> TICKRATE dvd milliseconds t)"

definition timer_inv :: "timeStruct \<Rightarrow> bool" where
  "timer_inv t = (0 \<le> hours t \<and> hours t \<le> 23 \<and> 0 \<le> seconds t \<and>
     0 \<le> milliseconds t \<and> milliseconds t \<le> 1000)"

definition times_inv :: "globals \<Rightarrow> bool" where
  "times_inv g = (time_of_day_inv (timeOfDay g) \<and> stopwatch_inv (stopWatchTime g) \<and>
     timer_inv (timer g))"

text \<open>
  Clock mode while the time of day is being set, with the cursor on the seconds, no button
  latch pending and \<open>k\<close> seconds on the clock; and \<open>n\<close> clicks of the function-1
  button (one iteration pressed, one released).
\<close>

definition editing_seconds :: "int \<Rightarrow> globals \<Rightarrow> bool" where
  "editing_seconds k g = (modeNumber g = 0 \<and> isSettingTime g = 1 \<and> setButtonRelease g = 0 \<and>
     toggleButtonRelease g = 0 \<and> f1ButtonRelease g = 0 \<and> f2ButtonRelease g = 0 \<and>
     f3ButtonRelease g = 0 \<and> segment g = 0 \<and> increment g = 0 \<and>
     timeOfDay g = \<lparr>hours = 0, minutes = 0, seconds = k, milliseconds = 0\<rparr>)"

fun f1_clicks :: "nat \<Rightarrow> inputs list" where
  "f1_clicks 0 = []"
| "f1_clicks (Suc n) = [press_f1, idle] @ f1_clicks n"

section \<open>Evaluation and frame lemmas\<close>

lemmas run_defs = loop_def loop_dispatch_def loop_mode_button_def mode_toggle_def
  loop_time_of_day_def loop_set_button_def run_timer_def timer_count_down_def set_time_def
  clear_segment_def increment_segment_def
  run_stopwatch_def count_time_def led_display_def bitRead_def write_all_pins_def
  digitalWrite_def initial_def zero_time_def idle_def press_toggle_def press_f1_def
  press_f2_def press_f3_def press_set_def c_rem_def TICKRATE_def lowestPin_def highestPin_def
  lowestSecPin_def lowestMinPin_def lowestHourPin_def Let_def upt_conv_Cons

lemma fold_digitalWrite:
  "fold (\<lambda>i. digitalWrite (p i) (v i)) xs g = g\<lparr>writes := writes g @ map (\<lambda>i. (p i, v i)) xs\<rparr>"
  by (induction xs arbitrary: g) (simp_all add: digitalWrite_def)

lemma fold_digitalWrite2:
  "fold (\<lambda>i g. digitalWrite (q i) (w i) (digitalWrite (p i) (v i) g)) xs g =
     g\<lparr>writes := writes g @ concat (map (\<lambda>i. [(p i, v i), (q i, w i)]) xs)\<rparr>"
  by (induction xs arbitrary: g) (simp_all add: digitalWrite_def)

lemma led_display_eq:
  "led_display t g =
     g\<lparr>writes := writes g @
        (if milliseconds t = 0 \<or> milliseconds t = 1000 then led_pattern t else [])\<rparr>"
  by (simp add: led_display_def led_pattern_def bitRead_def fold_digitalWrite
      fold_digitalWrite2 Let_def)

lemma write_all_pins_eq:
  "write_all_pins v g = g\<lparr>writes := writes g @ map (\<lambda>p. (p, v)) [lowestPin..highestPin]\<rparr>"
  by (simp add: write_all_pins_def fold_digitalWrite)

lemma c_rem_nonneg: "0 \<le> a \<Longrightarrow> c_rem a b = a mod \<bar>b\<bar>"
  by (cases "a = 0") (simp_all add: c_rem_def)

lemma set_time_frame:
  "modeNumber (snd (set_time inp t g)) = modeNumber g"
  "isSettingTime (snd (set_time inp t g)) = isSettingTime g"
  "timeOfDay (snd (set_time inp t g)) = timeOfDay g"
  "stopWatchTime (snd (set_time inp t g)) = stopWatchTime g"
  "timer (snd (set_time inp t g)) = timer g"
  "toggleButtonRelease (snd (set_time inp t g)) = toggleButtonRelease g"
  "setButtonRelease (snd (set_time inp t g)) = setButtonRelease g"
  "isStopwatchCounting (snd (set_time inp t g)) = isStopwatchCounting g"
  "isTimerCounting (snd (set_time inp t g)) = isTimerCounting g"
  "flash (snd (set_time inp t g)) = flash g"
  by (simp_all add: set_time_def Let_def led_display_eq case_prod_beta)

lemma segment_milliseconds:
  "milliseconds (clear_segment seg t) = milliseconds t"
  "milliseconds (increment_segment seg t) = milliseconds t"
  by (simp_all add: clear_segment_def increment_segment_def Let_def)

lemma set_time_milliseconds: "milliseconds (fst (set_time inp t g)) = 0"
  by (simp add: set_time_def Let_def led_display_eq case_prod_beta segment_milliseconds)

lemma run_stopwatch_frame:
  "modeNumber (run_stopwatch inp g) = modeNumber g"
  "isSettingTime (run_stopwatch inp g) = isSettingTime g"
  "timeOfDay (run_stopwatch inp g) = timeOfDay g"
  "timer (run_stopwatch inp g) = timer g"
  "toggleButtonRelease (run_stopwatch inp g) = toggleButtonRelease g"
  "setButtonRelease (run_stopwatch inp g) = setButtonRelease g"
  "isTimerCounting (run_stopwatch inp g) = isTimerCounting g"
  "flash (run_stopwatch inp g) = flash g"
  "increment (run_stopwatch inp g) = increment g"
  "segment (run_stopwatch inp g) = segment g"
  by (simp_all add: run_stopwatch_def Let_def led_display_eq)

lemma run_timer_frame:
  "modeNumber (run_timer inp g) = modeNumber g"
  "isSettingTime (run_timer inp g) = isSettingTime g"
  "timeOfDay (run_timer inp g) = timeOfDay g"
  "stopWatchTime (run_timer inp g) = stopWatchTime g"
  "toggleButtonRelease (run_timer inp g) = toggleButtonRelease g"
  "setButtonRelease (run_timer inp g) = setButtonRelease g"
  "isStopwatchCounting (run_timer inp g) = isStopwatchCounting g"
  by (simp_all add: run_timer_def Let_def led_display_eq write_all_pins_eq case_prod_beta
      set_time_frame)

lemma loop_dispatch_frame:
  "modeNumber (loop_dispatch inp g) = modeNumber g"
  "isSettingTime (loop_dispatch inp g) = isSettingTime g"
  "timeOfDay (loop_dispatch inp g) = timeOfDay g"
  "toggleButtonRelease (loop_dispatch inp g) = toggleButtonRelease g"
  "setButtonRelease (loop_dispatch inp g) = setButtonRelease g"
  by (simp_all add: loop_dispatch_def led_display_eq run_stopwatch_frame run_timer_frame)

lemma mode_toggle_frame:
  "timeOfDay (mode_toggle g) = timeOfDay g"
  "stopWatchTime (mode_toggle g) = stopWatchTime g"
  "timer (mode_toggle g) = timer g"
  "isStopwatchCounting (mode_toggle g) = isStopwatchCounting g"
  "isTimerCounting (mode_toggle g) = isTimerCounting g"
  "increment (mode_toggle g) = increment g"
  "segment (mode_toggle g) = segment g"
  "setButtonRelease (mode_toggle g) = setButtonRelease g"
  "isSettingTime (mode_toggle g) = 0"
  "flash (mode_toggle g) = 0"
  "toggleButtonRelease (mode_toggle g) = 0"
  "modeNumber (mode_toggle g) = c_rem (modeNumber g + 1) 3"
  by (simp_all add: mode_toggle_def Let_def write_all_pins_eq)

lemma loop_mode_button_frame:
  "timeOfDay (loop_mode_button inp g) = timeOfDay g"
  "stopWatchTime (loop_mode_button inp g) = stopWatchTime g"
  "timer (loop_mode_button inp g) = timer g"
  "isStopwatchCounting (loop_mode_button inp g) = isStopwatchCounting g"
  "isTimerCounting (loop_mode_button inp g) = isTimerCounting g"
  "setButtonRelease (loop_mode_button inp g) = setButtonRelease g"
  by (simp_all add: loop_mode_button_def mode_toggle_frame)

lemma loop_time_of_day_frame:
  "modeNumber (loop_time_of_day inp g) = modeNumber g"
  "isSettingTime (loop_time_of_day inp g) = isSettingTime g"
  "stopWatchTime (loop_time_of_day inp g) = stopWatchTime g"
  "timer (loop_time_of_day inp g) = timer g"
  "toggleButtonRelease (loop_time_of_day inp g) = toggleButtonRelease g"
  "setButtonRelease (loop_time_of_day inp g) = setButtonRelease g"
  "isStopwatchCounting (loop_time_of_day inp g) = isStopwatchCounting g"
  "isTimerCounting (loop_time_of_day inp g) = isTimerCounting g"
  "flash (loop_time_of_day inp g) = flash g"
  by (simp_all add: loop_time_of_day_def case_prod_beta set_time_frame)

lemma loop_set_button_frame:
  "modeNumber (loop_set_button inp g) = modeNumber g"
  "timeOfDay (loop_set_button inp g) = timeOfDay g"
  "stopWatchTime (loop_set_button inp g) = stopWatchTime g"
  "toggleButtonRelease (loop_set_button inp g) = toggleButtonRelease g"
  "isStopwatchCounting (loop_set_button inp g) = isStopwatchCounting g"
  "flash (loop_set_button inp g) = flash g"
  by (simp_all add: loop_set_button_def Let_def write_all_pins_eq)

section \<open>Iterations while the clock is being set\<close>

lemma run_append: "run (xs @ ys) g = run ys (run xs g)"
  by (induction xs arbitrary: g) simp_all

lemma loop_clock_editing:
  assumes "modeNumber g = 0" "isSettingTime g = 1" "\<not> setButton inp" "setButtonRelease g \<noteq> 1"
    "\<not> toggleButton inp" "toggleButtonRelease g \<noteq> 1"
  shows "loop inp g =
     led_display (fst (set_time inp (timeOfDay g) g))
       ((snd (set_time inp (timeOfDay g) g))\<lparr>timeOfDay := fst (set_time inp (timeOfDay g) g)\<rparr>)"
proof -
  let ?g2 = "(snd (set_time inp (timeOfDay g) g))\<lparr>timeOfDay := fst (set_time inp (timeOfDay g) g)\<rparr>"
  have 1: "loop_set_button inp g = g"
    using assms by (simp add: loop_set_button_def)
  have 2: "loop_time_of_day inp g = ?g2"
    using assms by (simp add: loop_time_of_day_def case_prod_beta)
  have 3: "loop_mode_button inp ?g2 = ?g2"
    using assms by (simp add: loop_mode_button_def set_time_frame)
  have 4: "loop_dispatch inp ?g2 = led_display (timeOfDay ?g2) ?g2"
    using assms by (simp add: loop_dispatch_def set_time_frame)
  show ?thesis
    by (simp add: loop_def 1 2 3 4)
qed

lemma set_time_press_f1:
  assumes "f2ButtonRelease g \<noteq> 1" "f3ButtonRelease g \<noteq> 1" "increment g = 0"
  shows "fst (set_time press_f1 t g) = increment_segment (segment g) (t\<lparr>milliseconds := 0\<rparr>)"
    and "snd (set_time press_f1 t g) =
      (led_display (t\<lparr>milliseconds := 0\<rparr>) g)\<lparr>f1ButtonRelease := 1, increment := 8\<rparr>"
  using assms
  by (simp_all add: set_time_def Let_def press_f1_def idle_def c_rem_def TICKRATE_def
      led_display_eq)

lemma set_time_idle_release:
  assumes "f1ButtonRelease g = 1" "f2ButtonRelease g \<noteq> 1" "f3ButtonRelease g \<noteq> 1"
  shows "set_time idle t g = (t\<lparr>milliseconds := 0\<rparr>, g\<lparr>increment := 0, f1ButtonRelease := 0\<rparr>)"
  using assms by (simp add: set_time_def Let_def idle_def)

lemma increment_seconds_below:
  assumes "0 \<le> k" "k < 60"
  shows "increment_segment 0 \<lparr>hours = 0, minutes = 0, seconds = k, milliseconds = 0\<rparr> =
     \<lparr>hours = 0, minutes = 0, seconds = k + 1, milliseconds = 0\<rparr>"
  using assms by (simp add: increment_segment_def Let_def c_rem_def)

lemma press_f1_editing_seconds:
  assumes "editing_seconds k g" "0 \<le> k" "k < 60"
  shows "editing_seconds (k + 1) (run [press_f1, idle] g)"
proof -
  let ?g1 = "loop press_f1 g"
  have "loop press_f1 g =
     led_display (fst (set_time press_f1 (timeOfDay g) g))
       ((snd (set_time press_f1 (timeOfDay g) g))
          \<lparr>timeOfDay := fst (set_time press_f1 (timeOfDay g) g)\<rparr>)"
    using assms(1) by (intro loop_clock_editing) (simp_all add: editing_seconds_def press_f1_def idle_def)
  moreover have "fst (set_time press_f1 (timeOfDay g) g) =
      \<lparr>hours = 0, minutes = 0, seconds = k + 1, milliseconds = 0\<rparr>"
    using assms by (simp add: set_time_press_f1 editing_seconds_def increment_seconds_below)
  moreover have "snd (set_time press_f1 (timeOfDay g) g) =
      (led_display ((timeOfDay g)\<lparr>milliseconds := 0\<rparr>) g)\<lparr>f1ButtonRelease := 1, increment := 8\<rparr>"
    using assms(1) by (simp add: set_time_press_f1 editing_seconds_def)
  ultimately have 1: "modeNumber ?g1 = 0 \<and> isSettingTime ?g1 = 1 \<and> setButtonRelease ?g1 = 0 \<and>
     toggleButtonRelease ?g1 = 0 \<and> f1ButtonRelease ?g1 = 1 \<and> f2ButtonRelease ?g1 = 0 \<and>
     f3ButtonRelease ?g1 = 0 \<and> segment ?g1 = 0 \<and>
     timeOfDay ?g1 = \<lparr>hours = 0, minutes = 0, seconds = k + 1, milliseconds = 0\<rparr>"
    using assms(1) by (simp add: led_display_eq editing_seconds_def)
  have "loop idle ?g1 =
     led_display (fst (set_time idle (timeOfDay ?g1) ?g1))
       ((snd (set_time idle (timeOfDay ?g1) ?g1))
          \<lparr>timeOfDay := fst (set_time idle (timeOfDay ?g1) ?g1)\<rparr>)"
    using 1 by (intro loop_clock_editing) (simp_all add: idle_def)
  moreover have "set_time idle (timeOfDay ?g1) ?g1 =
      ((timeOfDay ?g1)\<lparr>milliseconds := 0\<rparr>, ?g1\<lparr>increment := 0, f1ButtonRelease := 0\<rparr>)"
    using 1 by (intro set_time_idle_release) simp_all
  ultimately have "editing_seconds (k + 1) (loop idle ?g1)"
    using 1 by (simp add: led_display_eq editing_seconds_def)
  then show ?thesis by simp
qed

lemma presses_editing_seconds:
  "editing_seconds k g \<Longrightarrow> 0 \<le> k \<Longrightarrow> k + int n \<le> 60 \<Longrightarrow>
   editing_seconds (k + int n) (run (f1_clicks n) g)"
proof (induction n arbitrary: k g)
  case 0
  then show ?case by simp
next
  case (Suc n)
  from Suc.prems have "editing_seconds (k + 1) (run [press_f1, idle] g)"
    by (intro press_f1_editing_seconds) simp_all
  then have "editing_seconds (k + 1 + int n)
      (run (f1_clicks n) (run [press_f1, idle] g))"
    using Suc.prems by (intro Suc.IH) simp_all
  moreover have "k + 1 + int n = k + int (Suc n)" by simp
  ultimately show ?case by (simp only: f1_clicks.simps run_append)
qed

lemma enter_editing_seconds: "editing_seconds 0 (run [press_set, idle] initial)"
  by (simp add: editing_seconds_def run_defs cong: let_weak_cong)

lemma sixty_presses:
  "timeOfDay (run ([press_set, idle] @ f1_clicks 60) initial) =
     \<lparr>hours = 0, minutes = 0, seconds = 60, milliseconds = 0\<rparr>"
proof -
  have "editing_seconds (0 + int 60) (run (f1_clicks 60) (run [press_set, idle] initial))"
    by (rule presses_editing_seconds [OF enter_editing_seconds]) simp_all
  then show ?thesis
    by (simp only: run_append editing_seconds_def) simp
qed

section \<open>C1: the time values after every iteration\<close>

lemma tick_next:
  assumes "TICKRATE dvd m" "0 \<le> m" "m \<le> 999"
  shows "m + TICKRATE = 1000 \<or> (m + TICKRATE \<le> 999 \<and> TICKRATE dvd (m + TICKRATE))"
proof -
  from assms(1) obtain k where "m = 8 * k" by (auto simp: TICKRATE_def)
  with assms(2,3) show ?thesis by (auto simp: TICKRATE_def)
qed

lemma count_time_stopwatch_inv:
  assumes "stopwatch_inv t"
  shows "stopwatch_inv (count_time t)"
proof -
  from assms have "milliseconds t + TICKRATE = 1000 \<or>
      (milliseconds t + TICKRATE \<le> 999 \<and> TICKRATE dvd (milliseconds t + TICKRATE))"
    by (intro tick_next) (simp_all add: stopwatch_inv_def valid_time_def)
  moreover have "0 \<le> milliseconds t + TICKRATE"
    using assms by (simp add: stopwatch_inv_def valid_time_def TICKRATE_def)
  ultimately show ?thesis
    using assms
    by (auto simp: stopwatch_inv_def valid_time_def count_time_def Let_def c_rem_nonneg)
qed

lemma count_time_time_of_day_inv:
  assumes "time_of_day_inv t"
  shows "time_of_day_inv (count_time t)"
proof -
  from assms have "milliseconds t + TICKRATE = 1000 \<or>
      (milliseconds t + TICKRATE \<le> 999 \<and> TICKRATE dvd (milliseconds t + TICKRATE))"
    by (intro tick_next) (simp_all add: time_of_day_inv_def)
  moreover have "0 \<le> milliseconds t + TICKRATE"
    using assms by (simp add: time_of_day_inv_def TICKRATE_def)
  ultimately show ?thesis
    using assms
    by (auto simp: time_of_day_inv_def count_time_def Let_def c_rem_nonneg)
qed

lemma clear_segment_fields:
  assumes "0 \<le> hours t" "hours t \<le> 23" "0 \<le> seconds t"
  shows "0 \<le> hours (clear_segment seg t)" "hours (clear_segment seg t) \<le> 23"
    "0 \<le> seconds (clear_segment seg t)"
  using assms by (simp_all add: clear_segment_def)

lemma increment_segment_fields:
  assumes "0 \<le> hours t" "hours t \<le> 23" "0 \<le> seconds t"
  shows "0 \<le> hours (increment_segment seg t)" "hours (increment_segment seg t) \<le> 23"
    "0 \<le> seconds (increment_segment seg t)"
  using assms by (auto simp: increment_segment_def Let_def c_rem_nonneg)

lemma set_time_fields:
  assumes "0 \<le> hours t" "hours t \<le> 23" "0 \<le> seconds t"
  shows "0 \<le> hours (fst (set_time inp t g))" "hours (fst (set_time inp t g)) \<le> 23"
    "0 \<le> seconds (fst (set_time inp t g))"
  using assms
  by (simp_all add: set_time_def Let_def led_display_eq case_prod_beta
      clear_segment_fields increment_segment_fields)

lemma set_time_time_of_day_inv:
  "time_of_day_inv t \<Longrightarrow> time_of_day_inv (fst (set_time inp t g))"
  by (simp add: time_of_day_inv_def set_time_fields set_time_milliseconds)

lemma set_time_timer_inv:
  "timer_inv t \<Longrightarrow> timer_inv (fst (set_time inp t g))"
  by (simp add: timer_inv_def set_time_fields set_time_milliseconds)

lemma timer_count_down_inv:
  "timer_inv t \<Longrightarrow> timer_inv (timer_count_down t)"
  by (auto simp: timer_inv_def timer_count_down_def Let_def TICKRATE_def)

lemma zero_inv:
  "stopwatch_inv (t\<lparr>milliseconds := 0, seconds := 0, minutes := 0, hours := 0\<rparr>)"
  "timer_inv (t\<lparr>milliseconds := 0, seconds := 0, minutes := 0, hours := 0\<rparr>)"
  by (simp_all add: stopwatch_inv_def valid_time_def timer_inv_def)

lemma run_stopwatch_inv:
  assumes "stopwatch_inv (stopWatchTime g)"
  shows "stopwatch_inv (stopWatchTime (run_stopwatch inp g))"
  using assms
  by (simp add: run_stopwatch_def Let_def led_display_eq zero_inv count_time_stopwatch_inv)

lemma run_timer_inv:
  assumes "timer_inv (timer g)"
  shows "timer_inv (timer (run_timer inp g))"
  using assms
  by (simp add: run_timer_def Let_def led_display_eq write_all_pins_eq case_prod_beta
      zero_inv set_time_timer_inv timer_count_down_inv)

lemma loop_set_button_timer_inv:
  assumes "timer_inv (timer g)"
  shows "timer_inv (timer (loop_set_button inp g))"
  using assms by (simp add: loop_set_button_def Let_def write_all_pins_eq zero_inv)

lemma loop_dispatch_times:
  "stopWatchTime (loop_dispatch inp g) =
     (if modeNumber g = 1 then stopWatchTime (run_stopwatch inp g) else stopWatchTime g)"
  "timer (loop_dispatch inp g) =
     (if modeNumber g = 2 then timer (run_timer inp g) else timer g)"
  by (simp_all add: loop_dispatch_def led_display_eq run_timer_frame run_stopwatch_frame)

lemma loop_times_inv:
  assumes "times_inv g"
  shows "times_inv (loop inp g)"
proof -
  let ?g1 = "loop_set_button inp g"
  let ?g2 = "loop_time_of_day inp ?g1"
  let ?g3 = "loop_mode_button inp ?g2"
  have "time_of_day_inv (timeOfDay ?g2)"
    using assms
    by (simp add: times_inv_def loop_time_of_day_def case_prod_beta loop_set_button_frame
        count_time_time_of_day_inv set_time_time_of_day_inv)
  then have tod: "time_of_day_inv (timeOfDay (loop inp g))"
    by (simp add: loop_def loop_dispatch_frame loop_mode_button_frame)
  have "stopwatch_inv (stopWatchTime ?g3)"
    using assms
    by (simp add: times_inv_def loop_mode_button_frame loop_time_of_day_frame
        loop_set_button_frame)
  then have sw: "stopwatch_inv (stopWatchTime (loop inp g))"
    by (simp add: loop_def loop_dispatch_times run_stopwatch_inv)
  have "timer_inv (timer ?g3)"
    using assms
    by (simp add: times_inv_def loop_mode_button_frame loop_time_of_day_frame
        loop_set_button_timer_inv)
  then have "timer_inv (timer (loop inp g))"
    by (simp add: loop_def loop_dispatch_times run_timer_inv)
  with tod sw show ?thesis by (simp add: times_inv_def)
qed

lemma run_times_inv: "times_inv g \<Longrightarrow> times_inv (run inps g)"
  by (induction inps arbitrary: g) (simp_all add: loop_times_inv)

lemma initial_times_inv: "times_inv initial"
  by (simp add: times_inv_def initial_def zero_time_def time_of_day_inv_def stopwatch_inv_def
      valid_time_def timer_inv_def)

lemma timer_from_one_hour:
  "timer (run [press_toggle, idle, press_toggle, idle, press_set, idle, press_f3, idle,
               press_f3, idle, idle\<lparr>f1Button := True, setButton := True\<rparr>] initial) =
     \<lparr>hours = 1, minutes = 0, seconds = 0, milliseconds = 0\<rparr> \<and>
   timer (run [press_toggle, idle, press_toggle, idle, press_set, idle, press_f3, idle,
               press_f3, idle, idle\<lparr>f1Button := True, setButton := True\<rparr>, idle] initial) =
     \<lparr>hours = 1, minutes = - 2, seconds = 59, milliseconds = 1000\<rparr>"
  by (simp add: run_defs cong: let_weak_cong)

text \<open>
  C1 (as amended). After every iteration of the loop, starting from the all-zero initial
  state: the stopwatch time satisfies the whole normalization invariant; the time of day
  and the timer have hours in 0..23 and seconds that are not negative; the milliseconds
  of the time of day are in 0..999 and those of the timer in 0..1000. Nothing is said
  about the minutes, or about an upper bound of the seconds, of the time of day and of
  the timer.
\<close>

theorem times_after_every_tick:
  "valid_time (stopWatchTime (run inps initial)) \<and>
   0 \<le> hours (timeOfDay (run inps initial)) \<and> hours (timeOfDay (run inps initial)) \<le> 23 \<and>
   0 \<le> seconds (timeOfDay (run inps initial)) \<and>
   0 \<le> milliseconds (timeOfDay (run inps initial)) \<and>
   milliseconds (timeOfDay (run inps initial)) \<le> 999 \<and>
   0 \<le> hours (timer (run inps initial)) \<and> hours (timer (run inps initial)) \<le> 23 \<and>
   0 \<le> seconds (timer (run inps initial)) \<and>
   0 \<le> milliseconds (timer (run inps initial)) \<and>
   milliseconds (timer (run inps initial)) \<le> 1000"
  using run_times_inv [OF initial_times_inv, of inps]
  by (simp add: times_inv_def time_of_day_inv_def stopwatch_inv_def timer_inv_def)

text \<open>
  The claim as stated fails from the initial state: the timer holds 1000 milliseconds
  after its first borrow, its minutes go to -2 when it counts down from one hour, and
  sixty clicks while the clock is being set leave 60 seconds on the time of day.
\<close>

theorem times_after_every_tick_counterexample:
  "milliseconds (timer (run [press_toggle, idle, press_toggle, idle, press_set, idle,
      idle\<lparr>f1Button := True, setButton := True\<rparr>, idle] initial)) = 1000 \<and>
   minutes (timer (run [press_toggle, idle, press_toggle, idle, press_set, idle, press_f3, idle,
      press_f3, idle, idle\<lparr>f1Button := True, setButton := True\<rparr>, idle] initial)) = - 2 \<and>
   seconds (timeOfDay (run ([press_set, idle] @ f1_clicks 60) initial)) = 60"
proof -
  have "milliseconds (timer (run [press_toggle, idle, press_toggle, idle, press_set, idle,
      idle\<lparr>f1Button := True, setButton := True\<rparr>, idle] initial)) = 1000"
    by (simp add: run_defs cong: let_weak_cong)
  then show ?thesis
    by (simp only: timer_from_one_hour sixty_presses) simp
qed

section \<open>C2: the borrow of the countdown\<close>

text \<open>
  C2 (the code at the failing input). Counting down from 1:00:00:000 the borrow reaches
  the minutes at -1; the branch for it decrements the minutes again and sets the seconds
  to 59, and leaves the hours alone: the timer shows 1 hour, -2 minutes, 59 seconds, where
  the claim has 0 hours, 59 minutes, 59 seconds. The state is reached from startup by
  setting one hour on the timer and starting it.
\<close>

theorem timer_minute_borrow_failing:
  "timer_count_down \<lparr>hours = 1, minutes = 0, seconds = 0, milliseconds = 0\<rparr> =
     \<lparr>hours = 1, minutes = - 2, seconds = 59, milliseconds = 1000\<rparr> \<and>
   timer (run [press_toggle, idle, press_toggle, idle, press_set, idle, press_f3, idle,
               press_f3, idle, idle\<lparr>f1Button := True, setButton := True\<rparr>] initial) =
     \<lparr>hours = 1, minutes = 0, seconds = 0, milliseconds = 0\<rparr> \<and>
   timer (run [press_toggle, idle, press_toggle, idle, press_set, idle, press_f3, idle,
               press_f3, idle, idle\<lparr>f1Button := True, setButton := True\<rparr>, idle] initial) =
     \<lparr>hours = 1, minutes = - 2, seconds = 59, milliseconds = 1000\<rparr>"
proof -
  have "timer_count_down \<lparr>hours = 1, minutes = 0, seconds = 0, milliseconds = 0\<rparr> =
     \<lparr>hours = 1, minutes = - 2, seconds = 59, milliseconds = 1000\<rparr>"
    by (simp add: timer_count_down_def TICKRATE_def Let_def)
  with timer_from_one_hour show ?thesis by (simp only: simp_thms)
qed

section \<open>C3: the mode button\<close>

lemma map_of_const:
  "map_of (map (\<lambda>p. (p, v)) ps) p = (if p \<in> set ps then Some v else None)"
  by (induction ps) simp_all

lemma pin_level_last_writes:
  assumes "p \<in> set ps"
  shows "pin_level (g\<lparr>writes := writes g @ map (\<lambda>p. (p, v)) ps\<rparr>) p = v"
proof -
  have "map_of (rev (writes g @ map (\<lambda>p. (p, v)) ps)) p = Some v"
    using assms by (simp add: rev_map map_of_const map_add_def)
  then show ?thesis by (simp add: pin_level_def)
qed

lemma loop_modeNumber:
  "modeNumber (loop inp g) =
     (if \<not> toggleButton inp \<and> toggleButtonRelease g = 1 then c_rem (modeNumber g + 1) 3
      else modeNumber g)"
  by (simp add: loop_def loop_dispatch_frame loop_mode_button_def mode_toggle_frame
      loop_time_of_day_frame loop_set_button_frame)

lemma loop_toggleButtonRelease:
  "toggleButtonRelease (loop inp g) =
     (if toggleButton inp then 1
      else if toggleButtonRelease g = 1 then 0 else toggleButtonRelease g)"
  by (simp add: loop_def loop_dispatch_frame loop_mode_button_def mode_toggle_frame
      loop_time_of_day_frame loop_set_button_frame)

lemma next_mode:
  assumes "m \<in> {0, 1, 2}"
  shows "c_rem (m + 1) 3 = (m + 1) mod 3" "c_rem (m + 1) 3 \<in> {0, 1, 2}"
  using assms by (auto simp: c_rem_def)

lemma loop_mode_range:
  assumes "modeNumber g \<in> {0, 1, 2}"
  shows "modeNumber (loop inp g) \<in> {0, 1, 2}"
  using next_mode(2) [OF assms] assms by (simp add: loop_modeNumber)

lemma run_mode_range: "modeNumber g \<in> {0, 1, 2} \<Longrightarrow> modeNumber (run inps g) \<in> {0, 1, 2}"
proof (induction inps arbitrary: g)
  case Nil
  then show ?case by simp
next
  case (Cons inp inps)
  from Cons.prems have "modeNumber (loop inp g) \<in> {0, 1, 2}"
    by (rule loop_mode_range)
  then have "modeNumber (run inps (loop inp g)) \<in> {0, 1, 2}"
    by (rule Cons.IH)
  then show ?case by simp
qed

lemma click_toggle:
  "modeNumber (run [press_toggle, idle] g) = c_rem (modeNumber g + 1) 3"
  by (simp add: loop_modeNumber loop_toggleButtonRelease press_toggle_def idle_def)

lemma three_modes:
  assumes "m \<in> {0, 1, 2}"
  shows "c_rem (c_rem (c_rem (m + 1) 3 + 1) 3 + 1) 3 = m"
  using assms by (auto simp: c_rem_def)

text \<open>
  C3 (as amended). In every state reached from startup the mode is 0, 1 or 2 and the
  release of the mode button moves it on cyclically, clock to stopwatch to timer to clock.
  The release clears \<open>isSettingTime\<close>, \<open>flash\<close> and the button's latch and writes
  \<^verbatim>\<open>LOW\<close> to every LED pin, so that each of them is off; it leaves the running flags of
  stopwatch and timer as they are. An iteration in which the release fires ends in the
  mode the release selects, and three releases, or three clicks of the button, lead back
  to the mode they started from.
\<close>

theorem mode_toggle_event:
  "modeNumber (run inps initial) \<in> {0, 1, 2} \<and>
   modeNumber (mode_toggle (run inps initial)) = (modeNumber (run inps initial) + 1) mod 3 \<and>
   isSettingTime (mode_toggle g) = 0 \<and> flash (mode_toggle g) = 0 \<and>
   toggleButtonRelease (mode_toggle g) = 0 \<and>
   writes (mode_toggle g) = writes g @ map (\<lambda>p. (p, False)) [lowestPin..highestPin] \<and>
   (\<forall>p\<in>{lowestPin..highestPin}. \<not> pin_level (mode_toggle g) p) \<and>
   isStopwatchCounting (mode_toggle g) = isStopwatchCounting g \<and>
   isTimerCounting (mode_toggle g) = isTimerCounting g \<and>
   (\<not> toggleButton inp \<and> toggleButtonRelease g = 1 \<longrightarrow>
      modeNumber (loop inp g) = modeNumber (mode_toggle g)) \<and>
   modeNumber (mode_toggle (mode_toggle (mode_toggle (run inps initial)))) =
     modeNumber (run inps initial) \<and>
   modeNumber (run [press_toggle, idle, press_toggle, idle, press_toggle, idle]
     (run inps initial)) = modeNumber (run inps initial)"
proof -
  have range: "modeNumber (run inps initial) \<in> {0, 1, 2}"
    by (rule run_mode_range) (simp add: initial_def)
  have eq: "mode_toggle g =
      g\<lparr>modeNumber := c_rem (modeNumber g + 1) 3,
        writes := writes g @ map (\<lambda>p. (p, False)) [lowestPin..highestPin],
        isSettingTime := 0, toggleButtonRelease := 0, flash := 0\<rparr>"
    by (simp add: mode_toggle_def Let_def write_all_pins_eq)
  have pins: "\<forall>p\<in>{lowestPin..highestPin}. \<not> pin_level (mode_toggle g) p"
  proof
    fix p assume "p \<in> {lowestPin..highestPin}"
    then have "p \<in> set [lowestPin..highestPin]" by simp
    then have "pin_level (g\<lparr>writes := writes g @ map (\<lambda>p. (p, False))
        [lowestPin..highestPin]\<rparr>) p = False"
      by (rule pin_level_last_writes)
    then show "\<not> pin_level (mode_toggle g) p"
      by (simp add: eq pin_level_def)
  qed
  have "run [press_toggle, idle, press_toggle, idle, press_toggle, idle] (run inps initial) =
      run [press_toggle, idle] (run [press_toggle, idle] (run [press_toggle, idle]
        (run inps initial)))"
    by simp
  then have clicks: "modeNumber (run [press_toggle, idle, press_toggle, idle, press_toggle, idle]
      (run inps initial)) = modeNumber (run inps initial)"
    by (simp only: click_toggle three_modes [OF range])
  have step: "modeNumber (mode_toggle (run inps initial)) =
      (modeNumber (run inps initial) + 1) mod 3"
    by (simp only: mode_toggle_frame next_mode(1) [OF range])
  have three: "modeNumber (mode_toggle (mode_toggle (mode_toggle (run inps initial)))) =
      modeNumber (run inps initial)"
    by (simp only: mode_toggle_frame three_modes [OF range])
  have tick: "\<not> toggleButton inp \<and> toggleButtonRelease g = 1 \<longrightarrow>
      modeNumber (loop inp g) = modeNumber (mode_toggle g)"
    by (simp add: loop_modeNumber mode_toggle_frame)
  have ws: "writes (mode_toggle g) =
      writes g @ map (\<lambda>p. (p, False)) [lowestPin..highestPin]"
    by (simp add: eq)
  show ?thesis
    by (intro conjI range step three tick ws pins clicks mode_toggle_frame)
qed

theorem mode_toggle_event_witness:
  "toggleButtonRelease (run [press_toggle] initial) = 1 \<and>
   modeNumber (loop idle (run [press_toggle] initial)) = 1 \<and>
   (30::int) \<in> {lowestPin..highestPin} \<and>
   \<not> pin_level (mode_toggle (run [press_toggle] initial)) 30"
proof -
  have a: "toggleButtonRelease (run [press_toggle] initial) = 1 \<and>
      modeNumber (run [press_toggle] initial) = 0"
    by (simp add: run_defs cong: let_weak_cong)
  have b: "(30::int) \<in> {lowestPin..highestPin}"
    by (simp add: lowestPin_def highestPin_def)
  from mode_toggle_event [of "[press_toggle]" "run [press_toggle] initial" idle] a b
  show ?thesis
    by (auto simp: idle_def)
qed

text \<open>
  The claim as stated fails: a stopwatch started in stopwatch mode is still running after
  the mode button has moved on to the timer, and the auto-repeat counter \<open>increment\<close>
  keeps its value when the mode button is released while the clock is being set.
\<close>

theorem mode_toggle_event_counterexample:
  "toggleButtonRelease (run [press_toggle, idle, press_f1, idle, press_toggle] initial) = 1 \<and>
   isStopwatchCounting (run [press_toggle, idle, press_f1, idle, press_toggle] initial) = 1 \<and>
   isStopwatchCounting
     (mode_toggle (run [press_toggle, idle, press_f1, idle, press_toggle] initial)) = 1 \<and>
   isStopwatchCounting (run [press_toggle, idle, press_f1, idle, press_toggle, idle] initial)
     = 1 \<and>
   modeNumber (run [press_toggle, idle, press_f1, idle, press_toggle, idle] initial) = 2 \<and>
   increment (run [press_set, idle, idle\<lparr>f1Button := True, toggleButton := True\<rparr>] initial)
     = 8 \<and>
   increment (mode_toggle
     (run [press_set, idle, idle\<lparr>f1Button := True, toggleButton := True\<rparr>] initial)) = 8"
  by (simp add: run_defs cong: let_weak_cong)

section \<open>C4: the latch of the clear button in timer mode\<close>

text \<open>
  C4 (the code at the failing input). In timer mode the release branch of the clear
  button resets \<open>f1ButtonRelease\<close>, not its own latch \<open>f2ButtonRelease\<close>: the latch is
  still set one and two iterations after the release, so the event fires again in each
  of them. The latch survives a change of mode: a stopwatch stopped at 24 milliseconds is
  cleared on entering stopwatch mode, with no press of the clear button there.
\<close>

theorem timer_clear_latch_failing:
  "f2ButtonRelease
     (run [press_toggle, idle, press_toggle, idle, press_f2, idle] initial) = 1 \<and>
   f2ButtonRelease
     (run [press_toggle, idle, press_toggle, idle, press_f2, idle, idle] initial) = 1 \<and>
   stopWatchTime
     (run [press_toggle, idle, press_f1, idle, idle, press_f1, idle, press_toggle, idle,
           press_f2, idle, press_toggle, idle, press_toggle] initial) =
     \<lparr>hours = 0, minutes = 0, seconds = 0, milliseconds = 24\<rparr> \<and>
   stopWatchTime
     (run [press_toggle, idle, press_f1, idle, idle, press_f1, idle, press_toggle, idle,
           press_f2, idle, press_toggle, idle, press_toggle, idle] initial) =
     \<lparr>hours = 0, minutes = 0, seconds = 0, milliseconds = 0\<rparr>"
  by (simp add: run_defs cong: let_weak_cong)

section \<open>C5: one second of counting\<close>

lemma count_time_below:
  assumes "milliseconds t + TICKRATE \<noteq> 1000" "seconds t \<noteq> 60" "minutes t \<noteq> 60"
    "0 \<le> hours t" "hours t \<le> 23"
  shows "count_time t = t\<lparr>milliseconds := milliseconds t + TICKRATE\<rparr>"
  using assms by (simp add: count_time_def Let_def c_rem_nonneg)

lemma count_time_funpow_below:
  assumes "seconds t \<noteq> 60" "minutes t \<noteq> 60" "0 \<le> hours t" "hours t \<le> 23"
    and "\<And>j. j < k \<Longrightarrow> milliseconds t + TICKRATE * int (Suc j) \<noteq> 1000"
  shows "(count_time ^^ k) t = t\<lparr>milliseconds := milliseconds t + TICKRATE * int k\<rparr>"
  using assms(5)
proof (induction k)
  case 0
  show ?case by simp
next
  case (Suc k)
  then have "(count_time ^^ k) t = t\<lparr>milliseconds := milliseconds t + TICKRATE * int k\<rparr>"
    by simp
  moreover have "count_time (t\<lparr>milliseconds := milliseconds t + TICKRATE * int k\<rparr>) =
      t\<lparr>milliseconds := milliseconds t + TICKRATE * int (Suc k)\<rparr>"
    using assms(1-4) Suc.prems [of k]
    by (subst count_time_below) (auto simp: algebra_simps)
  ultimately show ?case by simp
qed

text \<open>
  C5 (as amended). For every valid time value whose milliseconds are 0, applying
  \<open>count_time\<close> \<open>1000 / TICKRATE\<close> times adds exactly one second, with the carry into
  minutes and hours and the wrap of the hours at 24, and leaves the milliseconds at 0.
\<close>

theorem count_time_one_second:
  assumes "valid_time t" "milliseconds t = 0"
  shows "(count_time ^^ nat (1000 div TICKRATE)) t =
     (if seconds t < 59 then t\<lparr>seconds := seconds t + 1\<rparr>
      else if minutes t < 59 then t\<lparr>minutes := minutes t + 1, seconds := 0\<rparr>
      else t\<lparr>hours := (hours t + 1) mod 24, minutes := 0, seconds := 0\<rparr>)"
proof -
  have n: "nat (1000 div TICKRATE) = Suc 124" by (simp add: TICKRATE_def)
  have "(count_time ^^ 124) t = t\<lparr>milliseconds := milliseconds t + TICKRATE * int 124\<rparr>"
    using assms by (intro count_time_funpow_below) (auto simp: valid_time_def TICKRATE_def)
  moreover have "(count_time ^^ nat (1000 div TICKRATE)) t = count_time ((count_time ^^ 124) t)"
    by (simp only: n funpow.simps o_apply)
  ultimately have "(count_time ^^ nat (1000 div TICKRATE)) t =
      count_time (t\<lparr>milliseconds := 992\<rparr>)"
    using assms by (simp add: TICKRATE_def)
  also have "\<dots> = (if seconds t < 59 then t\<lparr>seconds := seconds t + 1\<rparr>
      else if minutes t < 59 then t\<lparr>minutes := minutes t + 1, seconds := 0\<rparr>
      else t\<lparr>hours := (hours t + 1) mod 24, minutes := 0, seconds := 0\<rparr>)"
    using assms by (auto simp: count_time_def Let_def TICKRATE_def valid_time_def c_rem_nonneg)
  finally show ?thesis .
qed

theorem count_time_one_second_witness:
  "valid_time \<lparr>hours = 23, minutes = 59, seconds = 59, milliseconds = 0\<rparr> \<and>
   (count_time ^^ nat (1000 div TICKRATE))
      \<lparr>hours = 23, minutes = 59, seconds = 59, milliseconds = 0\<rparr>
     = \<lparr>hours = 0, minutes = 0, seconds = 0, milliseconds = 0\<rparr>"
  using count_time_one_second [of "\<lparr>hours = 23, minutes = 59, seconds = 59, milliseconds = 0\<rparr>"]
  by (simp add: valid_time_def)

text \<open>
  The claim as stated, for every valid time value, fails: \<open>count_time\<close> compares the
  milliseconds with 1000 by equality, so from 5 milliseconds the 125 steps run past 1000
  without a carry; and from 8 milliseconds, a value that \<open>count_time\<close> itself produces,
  they add the second and end at 8 milliseconds, not at 0.
\<close>

theorem count_time_one_second_counterexample:
  "valid_time \<lparr>hours = 0, minutes = 0, seconds = 0, milliseconds = 5\<rparr> \<and>
   (count_time ^^ nat (1000 div TICKRATE))
      \<lparr>hours = 0, minutes = 0, seconds = 0, milliseconds = 5\<rparr>
     = \<lparr>hours = 0, minutes = 0, seconds = 0, milliseconds = 1005\<rparr> \<and>
   valid_time \<lparr>hours = 0, minutes = 0, seconds = 0, milliseconds = 8\<rparr> \<and>
   (count_time ^^ nat (1000 div TICKRATE))
      \<lparr>hours = 0, minutes = 0, seconds = 0, milliseconds = 8\<rparr>
     = \<lparr>hours = 0, minutes = 0, seconds = 1, milliseconds = 8\<rparr>"
proof -
  let ?t = "\<lparr>hours = 0, minutes = 0, seconds = 0, milliseconds = 5\<rparr>"
  let ?u = "\<lparr>hours = 0, minutes = 0, seconds = 0, milliseconds = 8\<rparr>"
  have "milliseconds ?t + TICKRATE * int (Suc j) \<noteq> 1000" for j
    by (simp add: TICKRATE_def) presburger
  then have "(count_time ^^ nat (1000 div TICKRATE)) ?t =
      ?t\<lparr>milliseconds := milliseconds ?t + TICKRATE * int (nat (1000 div TICKRATE))\<rparr>"
    by (intro count_time_funpow_below) simp_all
  then have five: "(count_time ^^ nat (1000 div TICKRATE)) ?t =
      \<lparr>hours = 0, minutes = 0, seconds = 0, milliseconds = 1005\<rparr>"
    by (simp add: TICKRATE_def)
  have "(count_time ^^ 123) ?u = ?u\<lparr>milliseconds := milliseconds ?u + TICKRATE * int 123\<rparr>"
    by (intro count_time_funpow_below) (simp_all add: TICKRATE_def)
  then have "(count_time ^^ 123) ?u =
      \<lparr>hours = 0, minutes = 0, seconds = 0, milliseconds = 992\<rparr>"
    by (simp add: TICKRATE_def)
  moreover have "nat (1000 div TICKRATE) = Suc (Suc 123)"
    by (simp add: TICKRATE_def)
  then have "(count_time ^^ nat (1000 div TICKRATE)) ?u =
      count_time (count_time ((count_time ^^ 123) ?u))"
    by (simp only: funpow.simps o_apply)
  ultimately have eight: "(count_time ^^ nat (1000 div TICKRATE)) ?u =
      \<lparr>hours = 0, minutes = 0, seconds = 1, milliseconds = 8\<rparr>"
    by (simp add: count_time_def TICKRATE_def c_rem_def Let_def)
  have "valid_time ?t" "valid_time ?u"
    by (simp_all add: valid_time_def)
  with five eight show ?thesis by (simp only: simp_thms)
qed

section \<open>C6: the carry while a time is being set\<close>

text \<open>
  C6 (the code at the failing input). The overflow checks of \<open>set_time\<close> compare with
  \<open>> 60\<close>: incrementing 59 seconds gives 60 seconds and no carry into the minutes, and
  incrementing 59 minutes gives 60 minutes and no carry into the hours, where the claim
  has the unit wrap to 0 and the next unit incremented. Sixty clicks from startup put 60
  seconds on the time of day.
\<close>

theorem set_time_carry_failing:
  "increment_segment 0 \<lparr>hours = 0, minutes = 0, seconds = 59, milliseconds = 0\<rparr> =
     \<lparr>hours = 0, minutes = 0, seconds = 60, milliseconds = 0\<rparr> \<and>
   increment_segment 1 \<lparr>hours = 0, minutes = 59, seconds = 0, milliseconds = 0\<rparr> =
     \<lparr>hours = 0, minutes = 60, seconds = 0, milliseconds = 0\<rparr> \<and>
   fst (set_time press_f1 \<lparr>hours = 0, minutes = 0, seconds = 59, milliseconds = 0\<rparr>
          (initial\<lparr>isSettingTime := 1\<rparr>)) =
     \<lparr>hours = 0, minutes = 0, seconds = 60, milliseconds = 0\<rparr> \<and>
   timeOfDay (run ([press_set, idle] @ f1_clicks 60) initial) =
     \<lparr>hours = 0, minutes = 0, seconds = 60, milliseconds = 0\<rparr>"
proof -
  have "increment_segment 0 \<lparr>hours = 0, minutes = 0, seconds = 59, milliseconds = 0\<rparr> =
     \<lparr>hours = 0, minutes = 0, seconds = 60, milliseconds = 0\<rparr>"
    "increment_segment 1 \<lparr>hours = 0, minutes = 59, seconds = 0, milliseconds = 0\<rparr> =
     \<lparr>hours = 0, minutes = 60, seconds = 0, milliseconds = 0\<rparr>"
    by (simp_all add: increment_segment_def Let_def c_rem_def)
  moreover have "fst (set_time press_f1
      \<lparr>hours = 0, minutes = 0, seconds = 59, milliseconds = 0\<rparr>
      (initial\<lparr>isSettingTime := 1\<rparr>)) =
     \<lparr>hours = 0, minutes = 0, seconds = 60, milliseconds = 0\<rparr>"
    by (simp add: run_defs cong: let_weak_cong)
  ultimately show ?thesis
    by (simp only: sixty_presses simp_thms)
qed

section \<open>C7: the time of day in one iteration\<close>

text \<open>
  C7 (as amended). In every iteration of the loop in which, after the set button has been
  handled, the clock is not being set in clock mode (\<open>isSettingTime \<noteq> 1\<close> or
  \<open>modeNumber \<noteq> 0\<close>), the time of day is advanced by one \<open>count_time\<close>; when it is being
  set in clock mode it is handed to \<open>set_time\<close> instead and not advanced.
\<close>

theorem time_of_day_tick:
  "(isSettingTime (loop_set_button inp g) \<noteq> 1 \<or> modeNumber g \<noteq> 0 \<longrightarrow>
      timeOfDay (loop inp g) = count_time (timeOfDay g)) \<and>
   (isSettingTime (loop_set_button inp g) = 1 \<and> modeNumber g = 0 \<longrightarrow>
      timeOfDay (loop inp g) = fst (set_time inp (timeOfDay g) (loop_set_button inp g)))"
  by (simp add: loop_def loop_dispatch_frame loop_mode_button_frame loop_time_of_day_def
      loop_set_button_frame case_prod_beta)

theorem time_of_day_tick_witness:
  "isSettingTime (loop_set_button press_toggle initial) = 0 \<and>
   timeOfDay (loop press_toggle initial) = count_time (timeOfDay initial) \<and>
   isSettingTime (loop_set_button idle (initial\<lparr>setButtonRelease := 1\<rparr>)) = 1 \<and>
   modeNumber (initial\<lparr>setButtonRelease := 1\<rparr>) = 0 \<and>
   timeOfDay (loop idle (initial\<lparr>setButtonRelease := 1\<rparr>)) =
     fst (set_time idle (timeOfDay (initial\<lparr>setButtonRelease := 1\<rparr>))
            (loop_set_button idle (initial\<lparr>setButtonRelease := 1\<rparr>)))"
  using time_of_day_tick [of press_toggle initial]
    time_of_day_tick [of idle "initial\<lparr>setButtonRelease := 1\<rparr>"]
  by (simp add: loop_set_button_def initial_def press_toggle_def idle_def)

text \<open>
  The claim as stated, advanced in every iteration, fails in the iteration that enters
  the setting of the clock: the time of day goes back to 0 milliseconds.
\<close>

theorem time_of_day_tick_counterexample:
  "timeOfDay (run [press_set] initial) =
     \<lparr>hours = 0, minutes = 0, seconds = 0, milliseconds = 8\<rparr> \<and>
   timeOfDay (run [press_set, idle] initial) =
     \<lparr>hours = 0, minutes = 0, seconds = 0, milliseconds = 0\<rparr> \<and>
   timeOfDay (run [press_set, idle] initial) \<noteq> count_time (timeOfDay (run [press_set] initial))"
  by (simp add: run_defs cong: let_weak_cong)

section \<open>C8: the LED refresh\<close>

text \<open>
  C8 (as amended). \<open>led_display\<close> writes bits 0 to 5 of the seconds to the six pins from
  \<open>lowestSecPin\<close>, bits 0 to 5 of the minutes to the six pins from \<open>lowestMinPin\<close> and
  bits 0 to 4 of the hours to the five pins from \<open>lowestHourPin\<close>, exactly when the
  milliseconds are 0 or 1000; at every other value it writes no pin. Nothing else of the
  state changes.
\<close>

theorem led_display_writes:
  "led_display t g =
     g\<lparr>writes := writes g @
        (if milliseconds t = 0 \<or> milliseconds t = 1000
         then concat (map (\<lambda>i. [(lowestSecPin + int i, bit (seconds t) i),
                                   (lowestMinPin + int i, bit (minutes t) i)]) [0..<6])
              @ map (\<lambda>i. (lowestHourPin + int i, bit (hours t) i)) [0..<5]
         else [])\<rparr>"
  by (simp add: led_display_eq led_pattern_def)

theorem led_display_writes_witness:
  "writes (led_display \<lparr>hours = 17, minutes = 42, seconds = 5, milliseconds = 0\<rparr> initial) =
     [(22, True), (28, False), (23, False), (29, True), (24, True), (30, False),
      (25, False), (31, True), (26, False), (32, False), (27, False), (33, True),
      (34, True), (35, False), (36, False), (37, False), (38, True)] \<and>
   writes (led_display \<lparr>hours = 17, minutes = 42, seconds = 5, milliseconds = 8\<rparr> initial) = []"
  using led_display_writes [of "\<lparr>hours = 17, minutes = 42, seconds = 5, milliseconds = 0\<rparr>" initial]
    led_display_writes [of "\<lparr>hours = 17, minutes = 42, seconds = 5, milliseconds = 8\<rparr>" initial]
  by (simp add: initial_def lowestPin_def lowestSecPin_def lowestMinPin_def lowestHourPin_def
      upt_conv_Cons bit_numeral_simps)

text \<open>
  The claim as stated, writes only when the milliseconds are 0, fails at 1000, the value
  the countdown stores after a borrow.
\<close>

theorem led_display_counterexample:
  "milliseconds \<lparr>hours = 0, minutes = 0, seconds = 59, milliseconds = 1000\<rparr> \<noteq> 0 \<and>
   writes (led_display \<lparr>hours = 0, minutes = 0, seconds = 59, milliseconds = 1000\<rparr> initial)
     \<noteq> writes initial"
  by (simp add: led_display_eq led_pattern_def initial_def upt_conv_Cons)

section \<open>C9: no editing in stopwatch mode\<close>

lemma editing_not_stopwatch_loop:
  assumes "isSettingTime g = 1 \<longrightarrow> modeNumber g \<noteq> 1"
  shows "isSettingTime (loop inp g) = 1 \<longrightarrow> modeNumber (loop inp g) \<noteq> 1"
proof -
  have "isSettingTime (loop_set_button inp g) = 1 \<longrightarrow> modeNumber (loop_set_button inp g) \<noteq> 1"
    using assms by (simp add: loop_set_button_def Let_def write_all_pins_eq)
  then have "isSettingTime (loop_time_of_day inp (loop_set_button inp g)) = 1 \<longrightarrow>
      modeNumber (loop_time_of_day inp (loop_set_button inp g)) \<noteq> 1"
    by (simp add: loop_time_of_day_frame)
  then have "isSettingTime (loop_mode_button inp (loop_time_of_day inp (loop_set_button inp g))) = 1
      \<longrightarrow> modeNumber (loop_mode_button inp (loop_time_of_day inp (loop_set_button inp g))) \<noteq> 1"
    by (simp add: loop_mode_button_def mode_toggle_frame)
  then show ?thesis
    by (simp add: loop_def loop_dispatch_frame)
qed

lemma editing_not_stopwatch_run:
  "(isSettingTime g = 1 \<longrightarrow> modeNumber g \<noteq> 1) \<Longrightarrow>
   isSettingTime (run inps g) = 1 \<longrightarrow> modeNumber (run inps g) \<noteq> 1"
proof (induction inps arbitrary: g)
  case Nil
  then show ?case by simp
next
  case (Cons inp inps)
  from Cons.prems have "isSettingTime (loop inp g) = 1 \<longrightarrow> modeNumber (loop inp g) \<noteq> 1"
    by (rule editing_not_stopwatch_loop)
  then show ?case using Cons.IH by simp
qed

text \<open>
  C9. In every state reached from startup, \<open>isSettingTime = 1\<close> implies
  \<open>modeNumber \<noteq> 1\<close>. The set button does not enter editing in stopwatch mode, and the
  mode button's release clears \<open>isSettingTime\<close>.
\<close>

theorem editing_never_in_stopwatch:
  "(isSettingTime (run inps initial) = 1 \<longrightarrow> modeNumber (run inps initial) \<noteq> 1) \<and>
   (modeNumber g = 1 \<and> isSettingTime g \<noteq> 1 \<longrightarrow> isSettingTime (loop_set_button inp g) \<noteq> 1) \<and>
   isSettingTime (mode_toggle g) = 0"
proof -
  have "isSettingTime (run inps initial) = 1 \<longrightarrow> modeNumber (run inps initial) \<noteq> 1"
    by (rule editing_not_stopwatch_run) (simp add: initial_def)
  moreover have "modeNumber g = 1 \<and> isSettingTime g \<noteq> 1 \<longrightarrow>
      isSettingTime (loop_set_button inp g) \<noteq> 1"
    by (simp add: loop_set_button_def Let_def)
  ultimately show ?thesis by (simp add: mode_toggle_frame)
qed

theorem editing_never_in_stopwatch_witness:
  "isSettingTime (run [press_set, idle] initial) = 1 \<and>
   modeNumber (run [press_set, idle] initial) \<noteq> 1 \<and>
   modeNumber (run [press_toggle, idle] initial) = 1 \<and>
   isSettingTime (run [press_toggle, idle] initial) \<noteq> 1 \<and>
   isSettingTime (loop_set_button idle (run [press_toggle, idle, press_set] initial)) \<noteq> 1"
  using editing_never_in_stopwatch [of "[press_set, idle]" "run [press_toggle, idle] initial" idle]
    editing_never_in_stopwatch
      [of "[press_set, idle]" "run [press_toggle, idle, press_set] initial" idle]
  by (simp add: run_defs cong: let_weak_cong)

section \<open>C10: editing zeroes the milliseconds\<close>

text \<open>
  C10. \<open>set_time\<close> returns its time value with 0 milliseconds whatever the buttons are,
  and after every iteration of the loop that ends in the editing state the edited time
  value (the time of day in clock mode, the timer in timer mode) has 0 milliseconds.
\<close>

theorem set_time_zeroes_milliseconds:
  "milliseconds (fst (set_time inp t g)) = 0 \<and>
   (isSettingTime (loop inp g) = 1 \<and> modeNumber (loop inp g) = 0 \<longrightarrow>
      milliseconds (timeOfDay (loop inp g)) = 0) \<and>
   (isSettingTime (loop inp g) = 1 \<and> modeNumber (loop inp g) = 2 \<longrightarrow>
      milliseconds (timer (loop inp g)) = 0)"
proof -
  let ?g1 = "loop_set_button inp g"
  let ?g2 = "loop_time_of_day inp ?g1"
  let ?g3 = "loop_mode_button inp ?g2"
  have fin: "isSettingTime (loop inp g) = isSettingTime ?g3" "modeNumber (loop inp g) = modeNumber ?g3"
    by (simp_all add: loop_def loop_dispatch_frame)
  have tod: "milliseconds (timeOfDay (loop inp g)) = 0"
    if "isSettingTime (loop inp g) = 1" "modeNumber (loop inp g) = 0"
  proof -
    have "isSettingTime ?g1 = 1 \<and> modeNumber ?g1 = 0"
      using that fin by (auto simp add: loop_mode_button_def mode_toggle_frame
          loop_time_of_day_frame split: if_splits)
    then show ?thesis
      by (simp add: loop_def loop_dispatch_frame loop_mode_button_frame loop_time_of_day_def
          case_prod_beta set_time_milliseconds)
  qed
  have tim: "milliseconds (timer (loop inp g)) = 0"
    if "isSettingTime (loop inp g) = 1" "modeNumber (loop inp g) = 2"
  proof -
    have "isSettingTime ?g3 = 1" "modeNumber ?g3 = 2"
      using that fin by simp_all
    then show ?thesis
      by (simp add: loop_def loop_dispatch_def run_timer_def Let_def case_prod_beta
          set_time_milliseconds)
  qed
  show ?thesis using tod tim by (simp add: set_time_milliseconds)
qed

theorem set_time_zeroes_milliseconds_witness:
  "isSettingTime (loop idle (run [press_f1, press_set] initial)) = 1 \<and>
   modeNumber (loop idle (run [press_f1, press_set] initial)) = 0 \<and>
   milliseconds (timeOfDay (run [press_f1, press_set] initial)) = 16 \<and>
   milliseconds (timeOfDay (loop idle (run [press_f1, press_set] initial))) = 0"
  using set_time_zeroes_milliseconds [of idle zero_time "run [press_f1, press_set] initial"]
  by (simp add: run_defs cong: let_weak_cong)

end
